theory Spec2Isabelle
  imports Main "HOL-Library.Sublist"
begin

section \<open>Strings\<close>

text \<open>
  A JavaScript string is a sequence of UTF-16 code units. The model uses
  \<^typ>\<open>string\<close>, reading a \<^typ>\<open>char\<close> as the code unit of the same number, so
  it covers the text whose code units lie in U+0000..U+00FF. On that range the
  functions below are what ECMAScript specifies.
\<close>

definition isWhiteSpace :: "char \<Rightarrow> bool" where
  \<comment> \<open>WhiteSpace and LineTerminator code points below U+0100: TAB, LF, VT, FF,
      CR, SP and NBSP.\<close>
  "isWhiteSpace c = (of_char c \<in> {9, 10, 11, 12, 13, 32, 160 :: nat})"

definition trim :: "string \<Rightarrow> string" where
  "trim s = rev (dropWhile isWhiteSpace (rev (dropWhile isWhiteSpace s)))"

definition toLowerChar :: "char \<Rightarrow> char" where
  \<comment> \<open>A..Z, and the Latin-1 capitals U+00C0..U+00DE except the multiplication
      sign U+00D7, move up by 32.\<close>
  "toLowerChar c =
     (let n = (of_char c :: nat)
      in if (65 \<le> n \<and> n \<le> 90) \<or> (192 \<le> n \<and> n \<le> 222 \<and> n \<noteq> 215)
         then char_of (n + 32) else c)"

definition toLowerCase :: "string \<Rightarrow> string" where
  "toLowerCase s = map toLowerChar s"

definition startsWith :: "string \<Rightarrow> string \<Rightarrow> bool" where
  \<comment> \<open>\<open>s.startsWith(p)\<close>\<close>
  "startsWith s p = prefix p s"

fun split :: "char \<Rightarrow> string \<Rightarrow> string list" where
  \<comment> \<open>\<open>s.split(sep)\<close> for a separator of one character: the pieces between
      the separators, empty pieces kept.\<close>
  "split sep [] = [[]]"
| "split sep (c # cs) =
     (if c = sep then [] # split sep cs
      else (case split sep cs of
              p # ps \<Rightarrow> (c # p) # ps
            | [] \<Rightarrow> [[c]]))"

definition index :: "'a list \<Rightarrow> nat \<Rightarrow> 'a option" where
  \<comment> \<open>\<open>xs[i]\<close>: \<open>undefined\<close> (here \<open>None\<close>) out of range.\<close>
  "index xs i = (if i < length xs then Some (xs ! i) else None)"

definition template :: "string option \<Rightarrow> string" where
  \<comment> \<open>A string that may be \<open>undefined\<close>, inside a template literal:
      \<open>undefined\<close> is rendered as the word.\<close>
  "template v = (case v of Some s \<Rightarrow> s | None \<Rightarrow> ''undefined'')"

definition digit :: "nat \<Rightarrow> char" where
  "digit d = char_of (48 + d)"

fun decimal :: "nat \<Rightarrow> string" where
  \<comment> \<open>A non-negative integer inside a template literal.\<close>
  "decimal n = (if n < 10 then [digit n] else decimal (n div 10) @ [digit (n mod 10)])"

declare decimal.simps [simp del]

definition number :: "int \<Rightarrow> string" where
  \<comment> \<open>An integer inside a template literal (\<open>Date.now()\<close> is one).\<close>
  "number i = (if i < 0 then ''-'' @ decimal (nat (- i)) else decimal (nat i))"

definition check_mark :: string where
  \<comment> \<open>U+2713, the one code unit of the program's text above U+00FF. It stands
      at the head of two constant log lines only, which are never trimmed,
      case-folded or split; it is written here as its three UTF-8 bytes.\<close>
  "check_mark = [CHR 0xE2, CHR 0x9C, CHR 0x93]"

section \<open>Data model (\<open>types.ts\<close>)\<close>

datatype IDEType = VSCODE | VS2026 | SOLIDE | SOLID_IDE | SOLIDITY_IDE

datatype WorkflowStatus = Idle | Running | Success | Failed

datatype FileType = File | Folder

datatype SidebarTab = Explorer | Actions | Tasks

record WorkflowRun =
  wf_id :: string
  workflowName :: string
  status :: WorkflowStatus
  startTime :: "int option"
  wf_logs :: "string list"

record TerminalInstance =
  term_id :: string
  term_name :: string
  logs :: "string list"

record Task =
  task_id :: string
  task_text :: string
  completed :: bool
  createdAt :: int

datatype FileEntry =
  FileEntry (fe_id: string) (fe_name: string) (fe_type: FileType)
    (language: "string option") (content: "string option")
    (isOpen: "bool option") (children: "FileEntry list option")

text \<open>
  \<open>TerminalTheme\<close> is a union of string literals, and the program stores in it
  strings it has cast to the type; the field holds the string.
\<close>

record ProjectState =
  activeIDE :: IDEType
  files :: "FileEntry list"
  currentFileId :: "string option"
  isTerminalOpen :: bool
  isAISidebarOpen :: bool
  activeSidebarTab :: SidebarTab
  workflows :: "WorkflowRun list"
  terminals :: "TerminalInstance list"
  activeTerminalId :: string
  terminalTheme :: string
  tasks :: "Task list"

text \<open>The result of \<open>analyzeCode\<close>, as the response schema of \<open>services/gemini.ts\<close>
  declares it.\<close>

record Issue =
  severity :: string
  message :: string
  line :: int

record AuditResult =
  summary :: string
  issues :: "Issue list"
  optimization :: string

datatype Role = User | Assistant

text \<open>
  The component \<open>App\<close> holds the project state and seven more cells
  (\<open>useState\<close>). One value of the record is what one render of the component
  sees.
\<close>

record App =
  state :: ProjectState
  aiResponse :: "AuditResult option"
  isAiLoading :: bool
  chatInput :: string
  chatMessages :: "(Role \<times> string) list"
  commandInput :: string
  suggestion :: string
  newTaskText :: string

section \<open>Seed values\<close>

definition INITIAL_FILES :: "FileEntry list" where
  "INITIAL_FILES =
    [FileEntry ''1'' ''contracts'' Folder None None None (Some
       [FileEntry ''2'' ''Storage.sol'' File (Some ''solidity'')
          (Some (''// SPDX-License-Identifier: MIT'' @ [CHR 0x0A] @
                 ''pragma solidity ^0.8.0;'' @ [CHR 0x0A] @ [CHR 0x0A] @
                 ''contract Storage {'' @ [CHR 0x0A] @
                 ''    uint256 public val;'' @ [CHR 0x0A] @
                 ''    function store(uint256 x) public {'' @ [CHR 0x0A] @
                 ''        val = x;'' @ [CHR 0x0A] @ ''    }'' @ [CHR 0x0A] @ ''}''))
          None None,
        FileEntry ''3'' ''Token.sol'' File (Some ''solidity'')
          (Some ''contract Token { mapping(address=>uint) balances; }'') None None]),
     FileEntry ''4'' ''.github'' Folder None None None (Some
       [FileEntry ''5'' ''workflows'' Folder None None None (Some
          [FileEntry ''6'' ''main.yml'' File (Some ''yaml'')
             (Some (''name: CI'' @ [CHR 0x0A] @ ''on: [push]'' @ [CHR 0x0A] @
                    ''jobs:'' @ [CHR 0x0A] @ ''  build:'' @ [CHR 0x0A] @
                    ''    runs-on: ubuntu-latest'' @ [CHR 0x0A] @
                    ''    steps:'' @ [CHR 0x0A] @
                    ''      - uses: actions/checkout@v2'' @ [CHR 0x0A] @
                    ''      - name: Run Tests'' @ [CHR 0x0A] @
                    ''        run: npm test''))
             None None,
           FileEntry ''8'' ''deploy.yml'' File (Some ''yaml'')
             (Some (''name: CD'' @ [CHR 0x0A] @ ''on: [manual]'' @ [CHR 0x0A] @
                    ''jobs:'' @ [CHR 0x0A] @ ''  deploy:'' @ [CHR 0x0A] @
                    ''    runs-on: ubuntu-latest'' @ [CHR 0x0A] @
                    ''    steps:'' @ [CHR 0x0A] @
                    ''      - uses: actions/checkout@v2'' @ [CHR 0x0A] @
                    ''      - name: Deploy to Mainnet'' @ [CHR 0x0A] @
                    ''        run: hardhat deploy''))
             None None])]),
     FileEntry ''7'' ''README.md'' File (Some ''markdown'')
       (Some (''# Soluf-th Project'' @ [CHR 0x0A] @ ''Developer hub simulation.''))
       None None]"

definition INITIAL_WORKFLOWS :: "WorkflowRun list" where
  "INITIAL_WORKFLOWS =
    [\<lparr>wf_id = ''wf1'', workflowName = ''CI Pipeline'', status = Success,
      startTime = None,
      wf_logs = [''Build started'', ''npm install successful'', ''Tests passed'',
                 ''Build finished'']\<rparr>,
     \<lparr>wf_id = ''wf2'', workflowName = ''CD Deployment'', status = Idle,
      startTime = None, wf_logs = []\<rparr>]"

definition INITIAL_TERMINALS :: "TerminalInstance list" where
  \<open>INITIAL_TERMINALS =
    [\<lparr>term_id = ''term-1'', term_name = ''bash'',
      logs = [''Welcome to Soluf-th Bash v5.1'',
              ''Type "help" for available commands.'']\<rparr>,
     \<lparr>term_id = ''term-2'', term_name = ''node'',
      logs = [''Welcome to Node.js v18.16.0.'',
              ''Type ".help" for more information.'']\<rparr>]\<close>

definition INITIAL_TASKS :: "int \<Rightarrow> Task list" where
  \<comment> \<open>\<open>now\<close> is what \<open>Date.now()\<close> returns when the module is loaded.\<close>
  "INITIAL_TASKS now =
    [\<lparr>task_id = ''t1'', task_text = ''Optimize Solidity Storage'', completed = False,
      createdAt = now\<rparr>,
     \<lparr>task_id = ''t2'', task_text = ''Update GitHub Actions config'', completed = True,
      createdAt = now - 100000\<rparr>]"

definition COMMANDS :: "string list" where
  "COMMANDS = [''help'', ''clear'', ''ls'', ''npm test'', ''npm deploy'', ''audit'',
               ''whoami'', ''theme monokai'', ''theme cyberpunk'', ''theme github-dark'']"

definition initial_state :: "int \<Rightarrow> ProjectState" where
  "initial_state now =
    \<lparr>activeIDE = VSCODE, files = INITIAL_FILES, currentFileId = Some ''2'',
     isTerminalOpen = True, isAISidebarOpen = True, activeSidebarTab = Explorer,
     workflows = INITIAL_WORKFLOWS, terminals = INITIAL_TERMINALS,
     activeTerminalId = ''term-1'', terminalTheme = ''github-dark'',
     tasks = INITIAL_TASKS now\<rparr>"

definition initial :: "int \<Rightarrow> App" where
  \<comment> \<open>The first render.\<close>
  "initial now =
    \<lparr>state = initial_state now, aiResponse = None, isAiLoading = False,
     chatInput = [], chatMessages = [], commandInput = [], suggestion = [],
     newTaskText = []\<rparr>"

section \<open>State updates and asynchronous handlers\<close>

text \<open>
  A handler of the component is a closure of one render: where its text reads
  \<open>state\<close>, \<open>commandInput\<close> or \<open>suggestion\<close> it reads the values of that render,
  also after an \<open>await\<close>. What it does to the component is a sequence of
  updates (\<open>setState(s => ...)\<close> and the setters of the other cells), which
  React applies in order to the value current at that moment. So a handler is
  modelled as a function of the render (the first argument \<open>a\<close>) that returns
  its updates; an \<open>async\<close> handler returns them in phases, one phase for the
  synchronous prefix and one after each \<open>await\<close>.
\<close>

type_synonym update = "App \<Rightarrow> App"

type_synonym async = "update list list"

definition setState :: "(ProjectState \<Rightarrow> ProjectState) \<Rightarrow> update" where
  "setState f a = a\<lparr>state := f (state a)\<rparr>"

definition setAiResponse :: "AuditResult option \<Rightarrow> update" where
  "setAiResponse v a = a\<lparr>aiResponse := v\<rparr>"

definition setIsAiLoading :: "bool \<Rightarrow> update" where
  "setIsAiLoading v a = a\<lparr>isAiLoading := v\<rparr>"

definition setChatInput :: "string \<Rightarrow> update" where
  "setChatInput v a = a\<lparr>chatInput := v\<rparr>"

definition setChatMessages ::
  "((Role \<times> string) list \<Rightarrow> (Role \<times> string) list) \<Rightarrow> update" where
  "setChatMessages f a = a\<lparr>chatMessages := f (chatMessages a)\<rparr>"

definition setCommandInput :: "string \<Rightarrow> update" where
  "setCommandInput v a = a\<lparr>commandInput := v\<rparr>"

definition setSuggestion :: "string \<Rightarrow> update" where
  "setSuggestion v a = a\<lparr>suggestion := v\<rparr>"

definition setNewTaskText :: "string \<Rightarrow> update" where
  "setNewTaskText v a = a\<lparr>newTaskText := v\<rparr>"

fun sync :: "update list \<Rightarrow> async \<Rightarrow> async" where
  \<comment> \<open>Statements that run without suspension, followed by \<open>k\<close>.\<close>
  "sync us [] = [us]"
| "sync us (p # ps) = (us @ p) # ps"

definition await :: "async \<Rightarrow> async" where
  \<comment> \<open>\<open>await\<close> of a timer or of the adapter: what follows runs in a later
      phase.\<close>
  "await k = [] # k"

definition unawaited :: "async \<Rightarrow> update list \<Rightarrow> async" where
  \<comment> \<open>A call of an \<open>async\<close> function whose promise is dropped: its synchronous
      prefix runs in place, the caller goes on with \<open>rest\<close>, and the later
      phases of the callee follow.\<close>
  "unawaited f rest = (case f of [] \<Rightarrow> [rest] | p # ps \<Rightarrow> (p @ rest) # ps)"

definition apply_updates :: "update list \<Rightarrow> App \<Rightarrow> App" where
  "apply_updates us a = fold (\<lambda>u. u) us a"

fun trace :: "async \<Rightarrow> App \<Rightarrow> App list" where
  \<comment> \<open>The component after each phase, when nothing else happens in between.\<close>
  "trace [] a = []"
| "trace (p # ps) a = apply_updates p a # trace ps (apply_updates p a)"

definition run :: "async \<Rightarrow> App \<Rightarrow> App" where
  \<comment> \<open>The component after the last phase, when nothing else happens in
      between.\<close>
  "run ps a = fold apply_updates ps a"

section \<open>The component (\<open>App\<close>)\<close>

definition addLog :: "App \<Rightarrow> string \<Rightarrow> string option \<Rightarrow> update" where
  "addLog a msg termId =
     (let targetId = (case termId of
                        Some t \<Rightarrow> if t \<noteq> [] then t else activeTerminalId (state a)
                      | None \<Rightarrow> activeTerminalId (state a))
      in setState (\<lambda>s. s\<lparr>terminals :=
           map (\<lambda>t. if term_id t = targetId then t\<lparr>logs := logs t @ [msg]\<rparr> else t)
             (terminals s)\<rparr>))"

definition append_log ::
  "string \<Rightarrow> string list \<Rightarrow> TerminalInstance list \<Rightarrow> TerminalInstance list" where
  \<comment> \<open>The collection after the lines \<open>ls\<close> have been appended for the target
      \<open>i\<close>, one \<open>addLog\<close> each: the terminals of that identifier get them, the
      others stay. Used to state results.\<close>
  "append_log i ls ts = map (\<lambda>t. if term_id t = i then t\<lparr>logs := logs t @ ls\<rparr> else t) ts"

definition activeTerminal :: "App \<Rightarrow> TerminalInstance option" where
  "activeTerminal a =
     find (\<lambda>t. term_id t = activeTerminalId (state a)) (terminals (state a))"

fun findFile :: "FileEntry list \<Rightarrow> string \<Rightarrow> FileEntry option" where
  "findFile [] i = None"
| "findFile (FileEntry fid n ty la co op ch # fs) i =
     (if fid = i then Some (FileEntry fid n ty la co op ch)
      else (case ch of
              Some cs \<Rightarrow> (case findFile cs i of
                            Some found \<Rightarrow> Some found
                          | None \<Rightarrow> findFile fs i)
            | None \<Rightarrow> findFile fs i))"

definition activeFile :: "App \<Rightarrow> FileEntry option" where
  "activeFile a =
     (case currentFileId (state a) of
        Some i \<Rightarrow> if i \<noteq> [] then findFile (files (state a)) i else None
      | None \<Rightarrow> None)"

datatype 'a outcome = Resolved 'a | Rejected

definition handleAnalyze :: "App \<Rightarrow> AuditResult outcome \<Rightarrow> async" where
  \<comment> \<open>\<open>r\<close> is how the call of \<open>analyzeCode\<close> ends.\<close>
  "handleAnalyze a r =
     (case activeFile a of
        None \<Rightarrow> []
      | Some file \<Rightarrow>
          (case content file of
             None \<Rightarrow> []
           | Some c \<Rightarrow>
               if c = [] then []
               else sync [setIsAiLoading True,
                          addLog a (''AI: Analyzing '' @ fe_name file @ ''...'') None]
                     (await
                       (case r of
                          Resolved result \<Rightarrow>
                            sync [setAiResponse (Some result),
                                  addLog a (''AI: Analysis complete for '' @ fe_name file @
                                            ''. Found '' @ decimal (length (issues result)) @
                                            '' concerns.'') None,
                                  setIsAiLoading False] []
                        | Rejected \<Rightarrow>
                            sync [addLog a ''AI Error: Failed to analyze code.'' None,
                                  setIsAiLoading False] []))))"

definition handleChat :: "App \<Rightarrow> string outcome \<Rightarrow> async" where
  \<comment> \<open>\<open>r\<close> is how the call of \<open>chatWithAI\<close> ends.\<close>
  "handleChat a r =
     (if trim (chatInput a) = [] then []
      else let userMsg = chatInput a
           in sync [setChatMessages (\<lambda>prev. prev @ [(User, userMsg)]),
                    setChatInput [], setIsAiLoading True]
                (await
                  (case r of
                     Resolved response \<Rightarrow>
                       sync [setChatMessages (\<lambda>prev. prev @ [(Assistant, response)]),
                             setIsAiLoading False] []
                   | Rejected \<Rightarrow>
                       sync [addLog a ''AI Error: Failed to generate response.'' None,
                             setIsAiLoading False] [])))"

fun for_steps :: "App \<Rightarrow> string list \<Rightarrow> async \<Rightarrow> async" where
  \<comment> \<open>\<open>for (const step of steps) { addLog(step); await ...; }\<close>, followed by
      \<open>k\<close>.\<close>
  "for_steps a [] k = k"
| "for_steps a (step # steps) k = sync [addLog a step None] (await (for_steps a steps k))"

definition runWorkflow :: "App \<Rightarrow> string \<Rightarrow> async" where
  "runWorkflow a workflowId =
     (case find (\<lambda>w. wf_id w = workflowId) (workflows (state a)) of
        None \<Rightarrow> []
      | Some run_wf \<Rightarrow>
          if status run_wf = Running then []
          else
            sync [setState (\<lambda>s. s\<lparr>isTerminalOpen := True,
                    workflows := map (\<lambda>w. if wf_id w = workflowId
                                           then w\<lparr>status := Running, wf_logs := []\<rparr> else w)
                                   (workflows s)\<rparr>)]
              (for_steps a
                 [''['' @ workflowName run_wf @ ''] Starting runner...'',
                  ''['' @ workflowName run_wf @ ''] Checking out code...'',
                  ''['' @ workflowName run_wf @ ''] Deployment success!'',
                  ''['' @ workflowName run_wf @ ''] Job finished.'']
                 (sync [setState (\<lambda>s. s\<lparr>workflows :=
                          map (\<lambda>w. if wf_id w = workflowId then w\<lparr>status := Success\<rparr> else w)
                            (workflows s)\<rparr>)] [])))"

definition handleCommand :: "App \<Rightarrow> AuditResult outcome \<Rightarrow> string \<Rightarrow> async" where
  \<comment> \<open>\<open>r\<close> is how the call of \<open>analyzeCode\<close> ends, should \<open>audit\<close> make one.\<close>
  "handleCommand a r cmd =
     (let cleanCmd = toLowerCase (trim cmd);
          echo = addLog a (''soluf-th@dev:~$ '' @ cmd) None;
          reset = [setCommandInput [], setSuggestion []]
      in
      if cleanCmd = ''clear'' then
        sync [echo,
              setState (\<lambda>s. s\<lparr>terminals :=
                map (\<lambda>t. if term_id t = activeTerminalId s then t\<lparr>logs := []\<rparr> else t)
                  (terminals s)\<rparr>)] [reset]
      else if cleanCmd = ''ls'' then
        sync [echo, addLog a ''contracts/  .github/  README.md  package.json'' None] [reset]
      else if cleanCmd = ''help'' then
        sync [echo,
              addLog a (''Available commands: help, clear, ls, npm test, npm deploy, audit, '' @
                        ''whoami, theme [monokai|cyberpunk|github-dark]'') None] [reset]
      else if cleanCmd = ''whoami'' then
        sync [echo, addLog a ''soluf-th-developer-agent-01'' None] [reset]
      else if cleanCmd = ''audit'' then
        sync [echo] (unawaited (handleAnalyze a r) reset)
      else if cleanCmd = ''npm test'' then
        sync [echo, addLog a ''Running tests...'' None]
          (await
            (sync [addLog a (check_mark @ '' Storage.sol compiled'') None,
                   addLog a (check_mark @ '' Storage.sol tests passed'') None,
                   addLog a ''Tests completed successfully.'' None] [reset]))
      else if startsWith cleanCmd ''theme '' then
        (case index (split CHR '' '' cleanCmd) 1 of
           Some themeName \<Rightarrow>
             if themeName \<in> set [''monokai'', ''cyberpunk'', ''github-dark''] then
               sync [echo,
                     setState (\<lambda>s. s\<lparr>terminalTheme := themeName\<rparr>),
                     addLog a (''Terminal theme switched to '' @ themeName) None]
                 [reset]
             else
               sync [echo, addLog a (''Unknown theme: '' @ themeName) None] [reset]
         | None \<Rightarrow>
             sync [echo, addLog a (''Unknown theme: '' @ template None) None] [reset])
      else if cleanCmd = ''npm deploy'' then
        sync [echo] (unawaited (runWorkflow a ''wf2'') reset)
      else if cleanCmd \<noteq> [] then
        sync [echo, addLog a (''Command not found: '' @ cleanCmd) None] [reset]
      else
        sync [echo] [reset])"

datatype key = Enter | Tab | Other

definition handleCommandKeyDown :: "App \<Rightarrow> AuditResult outcome \<Rightarrow> key \<Rightarrow> async" where
  "handleCommandKeyDown a r k =
     (case k of
        Enter \<Rightarrow> handleCommand a r (commandInput a)
      | Tab \<Rightarrow> if suggestion a \<noteq> []
               then [[setCommandInput (suggestion a), setSuggestion []]] else []
      | Other \<Rightarrow> [])"

definition onCommandChange :: "string \<Rightarrow> update list" where
  "onCommandChange val =
     [setCommandInput val,
      if trim val \<noteq> [] then
        (let match = find (\<lambda>c. startsWith c (toLowerCase val)) COMMANDS
         in setSuggestion (case match of Some m \<Rightarrow> m | None \<Rightarrow> []))
      else setSuggestion []]"

definition addTask :: "App \<Rightarrow> int \<Rightarrow> update list" where
  \<comment> \<open>\<open>now\<close> is what \<open>Date.now()\<close> returns.\<close>
  "addTask a now =
     (if trim (newTaskText a) = [] then []
      else let newTask = \<lparr>task_id = ''task-'' @ number now, task_text = trim (newTaskText a),
                           completed = False, createdAt = now\<rparr>
           in [setState (\<lambda>s. s\<lparr>tasks := newTask # tasks s\<rparr>), setNewTaskText []])"

definition toggleTask :: "string \<Rightarrow> update list" where
  "toggleTask i =
     [setState (\<lambda>s. s\<lparr>tasks :=
        map (\<lambda>t. if task_id t = i then t\<lparr>completed := \<not> completed t\<rparr> else t) (tasks s)\<rparr>)]"

definition deleteTask :: "string \<Rightarrow> update list" where
  "deleteTask i = [setState (\<lambda>s. s\<lparr>tasks := filter (\<lambda>t. task_id t \<noteq> i) (tasks s)\<rparr>)]"

definition createNewTerminal :: "int \<Rightarrow> update list" where
  \<comment> \<open>\<open>now\<close> is what \<open>Date.now()\<close> returns.\<close>
  "createNewTerminal now =
     (let newId = ''term-'' @ number now;
          newTerm = \<lparr>term_id = newId, term_name = ''bash'', logs = [''Terminal created.'']\<rparr>
      in [setState (\<lambda>s. s\<lparr>terminals := terminals s @ [newTerm], activeTerminalId := newId\<rparr>)])"

datatype error = TypeError

definition closeTerminal :: "App \<Rightarrow> string \<Rightarrow> App \<Rightarrow> error + App" where
  \<comment> \<open>The one update of the program that can throw: \<open>newTerms[0].id\<close> reads a
      property of \<open>undefined\<close> when \<open>newTerms\<close> is empty. The result is a function
      of the component the update is applied to.\<close>
  "closeTerminal a i =
     (if length (terminals (state a)) \<le> 1 then Inr
      else let newTerms = filter (\<lambda>t. term_id t \<noteq> i) (terminals (state a))
           in (\<lambda>cur.
                 if activeTerminalId (state cur) = i then
                   (case newTerms of
                      [] \<Rightarrow> Inl TypeError
                    | t # _ \<Rightarrow> Inr (cur\<lparr>state := (state cur)\<lparr>terminals := newTerms,
                                        activeTerminalId := term_id t\<rparr>\<rparr>))
                 else Inr (cur\<lparr>state := (state cur)\<lparr>terminals := newTerms\<rparr>\<rparr>)))"

section \<open>The component as a transition system\<close>

text \<open>
  The remaining updates are written in place in the markup. An event of the
  user interface runs its handler in the current render; a timer or the
  adapter resumes a suspended handler, whose next phase is then applied to
  the value current at that moment.

  The tabs of the terminals and the items of the task list are children keyed
  by identifiers made from \<open>Date.now()\<close>. When two of them have one identifier,
  React leaves elements of older renders in the document, and a click on one
  runs the handler of that render with the identifier of that element. So the
  identifier of a click on a tab or on a task item need not be in the current
  collection, and the render of \<open>closeTerminal\<close> need not be the current one.
\<close>

definition selectTerminal :: "string \<Rightarrow> update" where
  \<comment> \<open>\<open>onClick\<close> of a terminal tab\<close>
  "selectTerminal i = setState (\<lambda>s. s\<lparr>activeTerminalId := i\<rparr>)"

definition selectTheme :: "string \<Rightarrow> update" where
  \<comment> \<open>\<open>onChange\<close> of the theme selector, whose options are the three themes\<close>
  "selectTheme v = setState (\<lambda>s. s\<lparr>terminalTheme := v\<rparr>)"

definition hideTerminal :: update where
  "hideTerminal = setState (\<lambda>s. s\<lparr>isTerminalOpen := False\<rparr>)"

definition selectFile :: "FileEntry \<Rightarrow> update list" where
  \<comment> \<open>\<open>onClick\<close> of an entry of the file tree\<close>
  "selectFile f =
     (if fe_type f = File then [setState (\<lambda>s. s\<lparr>currentFileId := Some (fe_id f)\<rparr>)] else [])"

definition selectSidebarTab :: "SidebarTab \<Rightarrow> update" where
  "selectSidebarTab t = setState (\<lambda>s. s\<lparr>activeSidebarTab := t\<rparr>)"

definition toggleAISidebar :: update where
  "toggleAISidebar = setState (\<lambda>s. s\<lparr>isAISidebarOpen := \<not> isAISidebarOpen s\<rparr>)"

definition closeAISidebar :: update where
  "closeAISidebar = setState (\<lambda>s. s\<lparr>isAISidebarOpen := False\<rparr>)"

definition selectIDE :: "IDEType \<Rightarrow> update" where
  "selectIDE v = setState (\<lambda>s. s\<lparr>activeIDE := v\<rparr>)"

datatype event =
    KeyDown key "AuditResult outcome"
  | CommandChange string
  | AnalyzeClick "AuditResult outcome"
  | ChatSubmit "string outcome"
  | ChatChange string
  | RunClick string
  | TaskSubmit int
  | TaskChange string
  | TaskToggle string
  | TaskDelete string
  | NewTerminalClick int
  | TabClick string
  | ThemeSelect string
  | HideTerminalClick
  | FileClick FileEntry
  | SidebarClick SidebarTab
  | AIButtonClick
  | AICloseClick
  | IDESelect IDEType

definition offered :: "App \<Rightarrow> event \<Rightarrow> bool" where
  \<comment> \<open>The document has an element that raises the event: the workflows have
      fixed, distinct identifiers, and the theme selector has three options.\<close>
  "offered a e =
     (case e of
        RunClick i \<Rightarrow> i \<in> set (map wf_id (workflows (state a)))
      | ThemeSelect v \<Rightarrow> v \<in> set [''github-dark'', ''monokai'', ''cyberpunk'']
      | _ \<Rightarrow> True)"

definition on_event :: "App \<Rightarrow> event \<Rightarrow> async" where
  "on_event a e =
     (case e of
        KeyDown k r \<Rightarrow> handleCommandKeyDown a r k
      | CommandChange v \<Rightarrow> [onCommandChange v]
      | AnalyzeClick r \<Rightarrow> handleAnalyze a r
      | ChatSubmit r \<Rightarrow> handleChat a r
      | ChatChange v \<Rightarrow> [[setChatInput v]]
      | RunClick i \<Rightarrow> runWorkflow a i
      | TaskSubmit now \<Rightarrow> [addTask a now]
      | TaskChange v \<Rightarrow> [[setNewTaskText v]]
      | TaskToggle i \<Rightarrow> [toggleTask i]
      | TaskDelete i \<Rightarrow> [deleteTask i]
      | NewTerminalClick now \<Rightarrow> [createNewTerminal now]
      | TabClick i \<Rightarrow> [[selectTerminal i]]
      | ThemeSelect v \<Rightarrow> [[selectTheme v]]
      | HideTerminalClick \<Rightarrow> [[hideTerminal]]
      | FileClick f \<Rightarrow> [selectFile f]
      | SidebarClick t \<Rightarrow> [[selectSidebarTab t]]
      | AIButtonClick \<Rightarrow> [[toggleAISidebar]]
      | AICloseClick \<Rightarrow> [[closeAISidebar]]
      | IDESelect v \<Rightarrow> [[selectIDE v]])"

text \<open>
  A configuration is the current value of the component and the handlers that
  are suspended, each with the phases it has left. In the rule \<open>close\<close> any
  component may stand for the render \<open>old\<close> of the handler, the current one
  among them: the relation has every run of the program, and more.
\<close>

inductive step :: "App \<times> async list \<Rightarrow> App \<times> async list \<Rightarrow> bool" where
  event: "offered a e \<Longrightarrow> on_event a e = p # ps \<Longrightarrow>
            step (a, susp) (apply_updates p a, susp @ [ps])"
| close: "closeTerminal old i a = Inr a' \<Longrightarrow> step (a, susp) (a', susp)"
| resume: "k < length susp \<Longrightarrow> susp ! k = p # ps \<Longrightarrow>
            step (a, susp) (apply_updates p a, susp[k := ps])"

inductive reachable :: "App \<times> async list \<Rightarrow> bool" where
  reach_initial: "reachable (initial now, [])"
| reach_step: "reachable c \<Longrightarrow> step c c' \<Longrightarrow> reachable c'"

text \<open>
  Sequences of the two operations on the collection of terminals. A click on
  the close button of a tab runs \<open>closeTerminal\<close> of the render that drew the
  tab. That is the current render, unless identifiers collide: then tabs of
  older renders are left in the document. So a close names its render, by the
  number of operations that came before it. Not every tab of an older render
  is left: the sequences have the runs of the program and more, and the
  theorems on them name tabs that are left.
\<close>

datatype terminal_op =
    Create int  \<comment> \<open>a click on \<open>+\<close>, with what \<open>Date.now()\<close> returns\<close>
  | Close nat string
      \<comment> \<open>\<open>Close k i\<close>: a click on the close button of the tab of the terminal \<open>i\<close>
          that the component drew after the first \<open>k\<close> operations\<close>

fun do_terminal_op :: "App list \<Rightarrow> App \<Rightarrow> terminal_op \<Rightarrow> error + App" where
  \<comment> \<open>\<open>rs ! k\<close> is the component after the first \<open>k\<close> operations, \<open>a\<close> the current
      one. A close of a tab that was never drawn does nothing.\<close>
  "do_terminal_op rs a (Create now) = Inr (apply_updates (createNewTerminal now) a)"
| "do_terminal_op rs a (Close k i) =
     (if k < length rs \<and> i \<in> set (map term_id (terminals (state (rs ! k))))
      then closeTerminal (rs ! k) i a else Inr a)"

fun terminal_ops :: "App list \<Rightarrow> App \<Rightarrow> terminal_op list \<Rightarrow> error + App list" where
  \<comment> \<open>\<open>rs\<close> are the components before the current one \<open>a\<close>; the result is the
      list of all components of the run, or the error of the update that
      threw.\<close>
  "terminal_ops rs a [] = Inr (rs @ [a])"
| "terminal_ops rs a (x # xs) =
     (case do_terminal_op (rs @ [a]) a x of
        Inl e \<Rightarrow> Inl e
      | Inr a' \<Rightarrow> terminal_ops (rs @ [a]) a' xs)"

section \<open>Observations and invariants\<close>

definition workflow_status :: "string \<Rightarrow> App \<Rightarrow> WorkflowStatus option" where
  \<comment> \<open>The status the workflow panel shows for the identifier: that of the first
      workflow that has it.\<close>
  "workflow_status i a = map_option status (find (\<lambda>w. wf_id w = i) (workflows (state a)))"

definition no_failed :: "App \<Rightarrow> bool" where
  \<comment> \<open>No workflow of the collection has the status \<open>failed\<close>.\<close>
  "no_failed a = (\<forall>w\<in>set (workflows (state a)). status w \<noteq> Failed)"

definition keeps_no_failed :: "update \<Rightarrow> bool" where
  "keeps_no_failed u = (\<forall>a. no_failed a \<longrightarrow> no_failed (u a))"

definition all_keep :: "async \<Rightarrow> bool" where
  "all_keep ps = (\<forall>p\<in>set ps. \<forall>u\<in>set p. keeps_no_failed u)"

definition terminals_ok :: "App \<Rightarrow> bool" where
  \<comment> \<open>There is a terminal, and the active identifier is that of a terminal of
      the collection.\<close>
  "terminals_ok a \<longleftrightarrow> terminals (state a) \<noteq> [] \<and>
     activeTerminalId (state a) \<in> set (map term_id (terminals (state a)))"

section \<open>Basic facts\<close>

lemma apply_updates_Nil [simp]: "apply_updates [] a = a"
  by (simp add: apply_updates_def)

lemma apply_updates_Cons [simp]: "apply_updates (u # us) a = apply_updates us (u a)"
  by (simp add: apply_updates_def)

lemma run_Nil [simp]: "run [] a = a"
  by (simp add: run_def)

lemma run_Cons [simp]: "run (p # ps) a = run ps (apply_updates p a)"
  by (simp add: run_def)

lemmas setters = setState_def setCommandInput_def setSuggestion_def setAiResponse_def
  setIsAiLoading_def setChatInput_def setChatMessages_def setNewTaskText_def

lemma addLog_state:
  "addLog a msg None cur =
     cur\<lparr>state := (state cur)\<lparr>terminals :=
       append_log (activeTerminalId (state a)) [msg] (terminals (state cur))\<rparr>\<rparr>"
  by (simp add: addLog_def setState_def append_log_def)

lemma append_log_append_log [simp]:
  "append_log i ks (append_log i ls ts) = append_log i (ls @ ks) ts"
  by (induction ts) (simp_all add: append_log_def)

lemma initial_terminals: "terminals (state (initial now)) = INITIAL_TERMINALS"
  by (simp add: initial_def initial_state_def)

lemma initial_active: "activeTerminalId (state (initial now)) = ''term-1''"
  by (simp add: initial_def initial_state_def)

lemma initial_workflows: "workflows (state (initial now)) = INITIAL_WORKFLOWS"
  by (simp add: initial_def initial_state_def)

lemma find_first_index:
  "find P xs = Some x \<Longrightarrow> \<exists>i<length xs. x = xs ! i \<and> P (xs ! i) \<and> (\<forall>j<i. \<not> P (xs ! j))"
  by (auto simp: find_Some_iff)

section \<open>The suggestion engine\<close>

text \<open>
  C9. For every partial input the suggestion depends on the input alone, and
  it is the first entry of \<open>COMMANDS\<close>, in the order of the list, that starts
  with the lower-cased input: the entry at the least index with that prefix.
  It is empty when no entry has the prefix or when the input is empty or
  white space only.
\<close>

theorem suggestion_first_match:
  "(if trim val \<noteq> [] \<and> (\<exists>c\<in>set COMMANDS. startsWith c (toLowerCase val))
    then \<exists>i<length COMMANDS.
           suggestion (apply_updates (onCommandChange val) a) = COMMANDS ! i \<and>
           startsWith (COMMANDS ! i) (toLowerCase val) \<and>
           (\<forall>j<i. \<not> startsWith (COMMANDS ! j) (toLowerCase val))
    else suggestion (apply_updates (onCommandChange val) a) = [])
   \<and> suggestion (apply_updates (onCommandChange val) a) =
       suggestion (apply_updates (onCommandChange val) b)"
proof -
  let ?P = "\<lambda>c. startsWith c (toLowerCase val)"
  have sg: "suggestion (apply_updates (onCommandChange val) x) =
        (if trim val \<noteq> [] then (case find ?P COMMANDS of Some m \<Rightarrow> m | None \<Rightarrow> []) else [])"
    for x
    by (simp add: onCommandChange_def setCommandInput_def setSuggestion_def)
  show ?thesis
  proof (cases "find ?P COMMANDS")
    case None
    then have "\<forall>c\<in>set COMMANDS. \<not> ?P c" by (simp add: find_None_iff)
    with None show ?thesis by (simp add: sg)
  next
    case (Some m)
    from find_first_index [OF Some] obtain i where
      i: "i < length COMMANDS" "m = COMMANDS ! i" "?P (COMMANDS ! i)"
        "\<forall>j<i. \<not> ?P (COMMANDS ! j)"
      by blast
    then have ex: "\<exists>c\<in>set COMMANDS. ?P c" using nth_mem by blast
    show ?thesis
    proof (cases "trim val = []")
      case True
      then show ?thesis by (simp add: sg)
    next
      case False
      with Some i ex show ?thesis unfolding sg by auto
    qed
  qed
qed

text \<open>The input \<open>n\<close>: \<open>npm test\<close> stands before \<open>npm deploy\<close> in the list.\<close>

theorem suggestion_first_match_witness:
  "trim ''n'' \<noteq> [] \<and> (\<exists>c\<in>set COMMANDS. startsWith c (toLowerCase ''n'')) \<and>
   suggestion (apply_updates (onCommandChange ''n'') (initial 0)) = ''npm test'' \<and>
   suggestion (apply_updates (onCommandChange ''n'') (initial 0)) \<noteq> ''npm deploy'' \<and>
   (\<exists>i<length COMMANDS.
      suggestion (apply_updates (onCommandChange ''n'') (initial 0)) = COMMANDS ! i \<and>
      startsWith (COMMANDS ! i) (toLowerCase ''n'') \<and>
      (\<forall>j<i. \<not> startsWith (COMMANDS ! j) (toLowerCase ''n'')))"
proof -
  have t: "trim ''n'' \<noteq> []"
    by (simp add: trim_def isWhiteSpace_def)
  have l: "toLowerCase ''n'' = ''n''"
    by (simp add: toLowerCase_def toLowerChar_def)
  have e: "\<exists>c\<in>set COMMANDS. startsWith c (toLowerCase ''n'')"
    by (simp add: l COMMANDS_def startsWith_def)
  have s: "suggestion (apply_updates (onCommandChange ''n'') (initial 0)) = ''npm test''"
    by (simp add: onCommandChange_def setCommandInput_def setSuggestion_def t l COMMANDS_def
          startsWith_def)
  from suggestion_first_match [of "''n''" "initial 0" "initial 0"] t e s show ?thesis
    by simp
qed

section \<open>The command interpreter\<close>

lemma handleCommand_empty:
  assumes "trim cmd = []"
  shows "handleCommand a r cmd =
         [[addLog a (''soluf-th@dev:~$ '' @ cmd) None, setCommandInput [], setSuggestion []]]"
  using assms by (simp add: handleCommand_def toLowerCase_def startsWith_def)

text \<open>
  C4, as the program has it. An empty or white-space-only line is echoed: the
  dispatch appends one line, the prompt followed by the raw input, to the
  active terminal, and resets the input buffer and the suggestion. Nothing
  else changes.
\<close>

theorem empty_command_echo:
  assumes "trim cmd = []"
  shows "run (handleCommand a r cmd) a =
         a\<lparr>state := (state a)\<lparr>terminals :=
              append_log (activeTerminalId (state a)) [''soluf-th@dev:~$ '' @ cmd]
                (terminals (state a))\<rparr>,
           commandInput := [], suggestion := []\<rparr>"
  by (simp add: handleCommand_empty [OF assms] addLog_state setters)

theorem empty_command_echo_witness:
  "trim ''  '' = [] \<and>
   map logs (terminals (state (run (handleCommand (initial 0) Rejected ''  '') (initial 0)))) =
     [[''Welcome to Soluf-th Bash v5.1'',
       ''Type '' @ [CHR 0x22] @ ''help'' @ [CHR 0x22] @ '' for available commands.'',
       ''soluf-th@dev:~$   ''],
      [''Welcome to Node.js v18.16.0.'',
       ''Type '' @ [CHR 0x22] @ ''.help'' @ [CHR 0x22] @ '' for more information.'']]"
proof -
  have t: "trim ''  '' = []" by (simp add: trim_def isWhiteSpace_def)
  show ?thesis using empty_command_echo [OF t, of "initial 0" Rejected]
    by (simp add: t initial_terminals initial_active append_log_def INITIAL_TERMINALS_def)
qed

text \<open>The empty line, dispatched in the first render, changes the terminals.\<close>

theorem empty_command_counterexample:
  "terminals (state (run (handleCommand (initial 0) Rejected []) (initial 0))) \<noteq>
   terminals (state (initial 0))"
  by (simp add: handleCommand_empty trim_def addLog_state initial_terminals initial_active
        setters append_log_def INITIAL_TERMINALS_def)

subsection \<open>\<open>npm test\<close>\<close>

lemma handleCommand_npm_test:
  assumes "toLowerCase (trim cmd) = ''npm test''"
  shows "handleCommand a r cmd =
         [[addLog a (''soluf-th@dev:~$ '' @ cmd) None, addLog a ''Running tests...'' None],
          [addLog a (check_mark @ '' Storage.sol compiled'') None,
           addLog a (check_mark @ '' Storage.sol tests passed'') None,
           addLog a ''Tests completed successfully.'' None,
           setCommandInput [], setSuggestion []]]"
  using assms by (simp add: handleCommand_def await_def)

lemma lower_npm_test: "toLowerCase (trim ''npm test'') = ''npm test''"
  by (simp add: trim_def isWhiteSpace_def toLowerCase_def toLowerChar_def)

text \<open>
  C6, as the program has it. A dispatch of \<open>npm test\<close> that runs to its end with
  nothing else in between appends five lines to the active terminal, whatever
  its log held before: the prompt echo of the raw input and the line
  \<open>Running tests...\<close> before the delay, the three completion lines after it.
  The input buffer and the suggestion are reset after the delay.
\<close>

theorem npm_test_five_lines:
  assumes "toLowerCase (trim cmd) = ''npm test''"
  shows "trace (handleCommand a r cmd) a =
         [a\<lparr>state := (state a)\<lparr>terminals :=
              append_log (activeTerminalId (state a))
                [''soluf-th@dev:~$ '' @ cmd, ''Running tests...''] (terminals (state a))\<rparr>\<rparr>,
          a\<lparr>state := (state a)\<lparr>terminals :=
              append_log (activeTerminalId (state a))
                [''soluf-th@dev:~$ '' @ cmd, ''Running tests...'',
                 check_mark @ '' Storage.sol compiled'',
                 check_mark @ '' Storage.sol tests passed'',
                 ''Tests completed successfully.''] (terminals (state a))\<rparr>,
            commandInput := [], suggestion := []\<rparr>]"
  by (simp add: handleCommand_npm_test [OF assms] addLog_state setters)

theorem npm_test_five_lines_witness:
  "toLowerCase (trim ''npm test'') = ''npm test'' \<and>
   map (\<lambda>x. map (\<lambda>t. drop 2 (logs t)) (terminals (state x)))
     (trace (handleCommand (initial 0) Rejected ''npm test'') (initial 0)) =
     [[[''soluf-th@dev:~$ npm test'', ''Running tests...''], []],
      [[''soluf-th@dev:~$ npm test'', ''Running tests...'',
        check_mark @ '' Storage.sol compiled'',
        check_mark @ '' Storage.sol tests passed'',
        ''Tests completed successfully.''], []]]"
  using npm_test_five_lines [OF lower_npm_test, of "initial 0" Rejected]
  by (simp add: lower_npm_test initial_terminals initial_active append_log_def
        INITIAL_TERMINALS_def)

text \<open>In the first render the log of the active terminal grows from 2 lines to 7.\<close>

theorem npm_test_counterexample:
  "map term_id (terminals (state (initial 0))) = [''term-1'', ''term-2''] \<and>
   activeTerminalId (state (initial 0)) = ''term-1'' \<and>
   map (\<lambda>t. length (logs t)) (terminals (state (initial 0))) = [2, 2] \<and>
   map (\<lambda>t. length (logs t)) (terminals (state
     (run (handleCommand (initial 0) Rejected ''npm test'') (initial 0)))) = [7, 2]"
  by (simp add: handleCommand_npm_test lower_npm_test addLog_state setters initial_terminals
        initial_active append_log_def INITIAL_TERMINALS_def)

subsection \<open>\<open>theme\<close>\<close>

lemma split_takeWhile:
  "split sep s = takeWhile (\<lambda>c. c \<noteq> sep) s #
     (case dropWhile (\<lambda>c. c \<noteq> sep) s of [] \<Rightarrow> [] | _ # r \<Rightarrow> split sep r)"
  by (induction s) simp_all

lemma theme_name:
  "index (split CHR '' '' (''theme '' @ rest)) 1 = Some (takeWhile (\<lambda>c. c \<noteq> CHR '' '') rest)"
proof -
  have "split CHR '' '' (''theme '' @ rest) = ''theme'' # split CHR '' '' rest"
    by (subst split_takeWhile) simp
  also have "\<dots> = ''theme'' # takeWhile (\<lambda>c. c \<noteq> CHR '' '') rest #
     (case dropWhile (\<lambda>c. c \<noteq> CHR '' '') rest of [] \<Rightarrow> [] | _ # r \<Rightarrow> split CHR '' '' r)"
    by (subst split_takeWhile) simp
  finally show ?thesis by (simp add: index_def)
qed

lemma handleCommand_theme:
  assumes "toLowerCase (trim cmd) = ''theme '' @ rest"
  shows "handleCommand a r cmd =
     (let n = takeWhile (\<lambda>c. c \<noteq> CHR '' '') rest
      in if n \<in> set [''monokai'', ''cyberpunk'', ''github-dark''] then
           [[addLog a (''soluf-th@dev:~$ '' @ cmd) None,
             setState (\<lambda>s. s\<lparr>terminalTheme := n\<rparr>),
             addLog a (''Terminal theme switched to '' @ n) None,
             setCommandInput [], setSuggestion []]]
         else
           [[addLog a (''soluf-th@dev:~$ '' @ cmd) None,
             addLog a (''Unknown theme: '' @ n) None,
             setCommandInput [], setSuggestion []]])"
proof -
  let ?c = "toLowerCase (trim cmd)"
  have ne: "?c \<noteq> ''clear''" "?c \<noteq> ''ls''" "?c \<noteq> ''help''" "?c \<noteq> ''whoami''"
    "?c \<noteq> ''audit''" "?c \<noteq> ''npm test''"
    by (simp_all add: assms)
  have sw: "startsWith ?c ''theme ''"
    by (simp add: assms startsWith_def)
  have tn: "index (split CHR '' '' ?c) 1 = Some (takeWhile (\<lambda>c. c \<noteq> CHR '' '') rest)"
    unfolding assms by (rule theme_name)
  show ?thesis
    unfolding handleCommand_def Let_def
    by (simp only: ne sw tn if_False if_True option.case sync.simps append.simps)
qed

text \<open>
  C5, as the program has it. The line is trimmed and lower-cased before it is
  looked at, and the theme name is the text between the first and the second
  space of that form. When the name is one of \<open>monokai\<close>, \<open>cyberpunk\<close> and
  \<open>github-dark\<close>, the stored theme becomes the name and a confirmation line is
  appended after the prompt echo; otherwise the stored theme stays and the line
  \<open>Unknown theme: \<close> followed by the name is appended. The name echoed is the
  lower-cased first piece, not the text as typed.
\<close>

theorem theme_dispatch:
  assumes "toLowerCase (trim cmd) = ''theme '' @ rest"
    and "n = takeWhile (\<lambda>c. c \<noteq> CHR '' '') rest"
  shows "run (handleCommand a r cmd) a =
     a\<lparr>state := (state a)\<lparr>
          terminals := append_log (activeTerminalId (state a))
            [''soluf-th@dev:~$ '' @ cmd,
             if n \<in> set [''monokai'', ''cyberpunk'', ''github-dark'']
             then ''Terminal theme switched to '' @ n else ''Unknown theme: '' @ n]
            (terminals (state a)),
          terminalTheme := (if n \<in> set [''monokai'', ''cyberpunk'', ''github-dark'']
                            then n else terminalTheme (state a))\<rparr>,
       commandInput := [], suggestion := []\<rparr>"
  unfolding handleCommand_theme [OF assms(1)] Let_def assms(2) [symmetric]
  by (simp add: addLog_state setters)

lemma lower_theme_foo: "toLowerCase (trim ''theme foo'') = ''theme '' @ ''foo''"
  by (simp add: trim_def isWhiteSpace_def toLowerCase_def toLowerChar_def)

lemma lower_theme_cyberpunk:
  "toLowerCase (trim ''theme cyberpunk'') = ''theme '' @ ''cyberpunk''"
  by (simp add: trim_def isWhiteSpace_def toLowerCase_def toLowerChar_def)

theorem theme_dispatch_witness:
  "toLowerCase (trim ''theme foo'') = ''theme '' @ ''foo'' \<and>
   ''foo'' = takeWhile (\<lambda>c. c \<noteq> CHR '' '') ''foo'' \<and>
   terminalTheme (state (run (handleCommand (initial 0) Rejected ''theme foo'') (initial 0))) =
     ''github-dark'' \<and>
   map (\<lambda>t. drop 2 (logs t))
     (terminals (state (run (handleCommand (initial 0) Rejected ''theme foo'') (initial 0)))) =
     [[''soluf-th@dev:~$ theme foo'', ''Unknown theme: foo''], []] \<and>
   toLowerCase (trim ''theme cyberpunk'') = ''theme '' @ ''cyberpunk'' \<and>
   ''cyberpunk'' = takeWhile (\<lambda>c. c \<noteq> CHR '' '') ''cyberpunk'' \<and>
   terminalTheme (state
     (run (handleCommand (initial 0) Rejected ''theme cyberpunk'') (initial 0))) =
     ''cyberpunk'' \<and>
   map (\<lambda>t. drop 2 (logs t))
     (terminals (state
       (run (handleCommand (initial 0) Rejected ''theme cyberpunk'') (initial 0)))) =
     [[''soluf-th@dev:~$ theme cyberpunk'', ''Terminal theme switched to cyberpunk''], []]"
proof -
  have f: "''foo'' = takeWhile (\<lambda>c. c \<noteq> CHR '' '') ''foo''" by simp
  have c: "''cyberpunk'' = takeWhile (\<lambda>c. c \<noteq> CHR '' '') ''cyberpunk''" by simp
  have i: "state (initial 0) = initial_state 0" by (simp add: initial_def)
  show ?thesis
    using theme_dispatch [OF lower_theme_foo f, of "initial 0" Rejected]
      theme_dispatch [OF lower_theme_cyberpunk c, of "initial 0" Rejected]
    by (simp add: lower_theme_foo lower_theme_cyberpunk i initial_state_def append_log_def
          INITIAL_TERMINALS_def)
qed

text \<open>
  \<open>MONOKAI\<close> is none of the three names, and \<open>theme MONOKAI\<close> changes the stored
  theme of the first render.
\<close>

lemma lower_theme_upper: "toLowerCase (trim ''theme MONOKAI'') = ''theme '' @ ''monokai''"
  by code_simp

theorem theme_counterexample:
  "''MONOKAI'' \<notin> set [''monokai'', ''cyberpunk'', ''github-dark''] \<and>
   terminalTheme (state (initial 0)) = ''github-dark'' \<and>
   terminalTheme (state
     (run (handleCommand (initial 0) Rejected ''theme MONOKAI'') (initial 0))) = ''monokai''"
proof -
  have "terminalTheme (state (run (handleCommand a Rejected ''theme MONOKAI'') a)) = ''monokai''"
    for a
    unfolding handleCommand_theme [OF lower_theme_upper]
    by (simp add: Let_def addLog_state setters)
  then show ?thesis by (simp add: initial_def initial_state_def)
qed

lemma trim_keeps_prefix:
  assumes "xs \<noteq> []" "\<not> isWhiteSpace (hd xs)" "\<not> isWhiteSpace (last xs)"
  shows "trim (xs @ ys) = xs @ rev (dropWhile isWhiteSpace (rev ys))"
proof -
  have 1: "dropWhile isWhiteSpace (xs @ ys) = xs @ ys"
    using assms by (cases xs) simp_all
  have 2: "dropWhile isWhiteSpace (rev xs) = rev xs"
    using assms by (cases xs rule: rev_cases) simp_all
  have 3: "dropWhile isWhiteSpace (rev ys @ rev xs) = dropWhile isWhiteSpace (rev ys) @ rev xs"
  proof (cases "\<forall>c\<in>set (rev ys). isWhiteSpace c")
    case True
    then have "dropWhile isWhiteSpace (rev ys) = []" by simp
    moreover have "dropWhile isWhiteSpace (rev ys @ rev xs) = dropWhile isWhiteSpace (rev xs)"
      using True by (intro dropWhile_append2) simp
    ultimately show ?thesis by (simp add: 2)
  next
    case False
    then obtain c where "c \<in> set (rev ys)" "\<not> isWhiteSpace c" by blast
    then show ?thesis by (rule dropWhile_append1)
  qed
  show ?thesis by (simp add: trim_def 1 3)
qed

lemma trimEnd_prefix: "prefix (rev (dropWhile P (rev ys))) ys"
proof -
  have "rev ys = takeWhile P (rev ys) @ dropWhile P (rev ys)" by simp
  then have "ys = rev (dropWhile P (rev ys)) @ rev (takeWhile P (rev ys))"
    by (metis rev_append rev_rev_ident)
  then show ?thesis by (metis prefixI)
qed

lemma lower_space_tail:
  assumes "prefix te (CHR '' '' # e)"
  shows "takeWhile (\<lambda>c. c \<noteq> CHR '' '') (toLowerCase te) = []"
proof (cases te)
  case Nil
  then show ?thesis by (simp add: toLowerCase_def)
next
  case (Cons c cs)
  with assms have "c = CHR '' ''" by simp
  with Cons show ?thesis by (simp add: toLowerCase_def toLowerChar_def)
qed

lemma theme_extra_clean:
  assumes "v \<in> set [''monokai'', ''cyberpunk'', ''github-dark'']"
  shows "\<exists>rest. toLowerCase (trim (''theme '' @ v @ '' '' @ extra)) = ''theme '' @ rest \<and>
           takeWhile (\<lambda>c. c \<noteq> CHR '' '') rest = v"
proof -
  define te where "te = rev (dropWhile isWhiteSpace (rev ('' '' @ extra)))"
  have p: "prefix te (CHR '' '' # extra)"
    unfolding te_def using trimEnd_prefix [of isWhiteSpace "'' '' @ extra"] by simp
  have v: "(''theme '' @ v) \<noteq> []" "\<not> isWhiteSpace (hd (''theme '' @ v))"
    "\<not> isWhiteSpace (last (''theme '' @ v))"
    using assms by (auto simp: isWhiteSpace_def)
  have "trim ((''theme '' @ v) @ ('' '' @ extra)) = (''theme '' @ v) @ te"
    unfolding te_def by (rule trim_keeps_prefix [OF v])
  then have t: "trim (''theme '' @ v @ '' '' @ extra) = ''theme '' @ v @ te" by simp
  have lv: "toLowerCase v = v"
    using assms by (auto simp: toLowerCase_def toLowerChar_def)
  have l: "toLowerCase (''theme '' @ v @ te) = ''theme '' @ (v @ toLowerCase te)"
    using lv by (simp add: toLowerCase_def toLowerChar_def)
  have "takeWhile (\<lambda>c. c \<noteq> CHR '' '') (v @ toLowerCase te) = v"
    using assms lower_space_tail [OF p] by auto
  with t l show ?thesis by metis
qed

text \<open>
  C10, as the program has it. The pieces are those between space characters
  (U+0020), not between white space of any kind. After \<open>theme\<close>, one space, a
  valid name and one space, whatever follows is ignored: the stored theme
  becomes the name, and the confirmation line names the name alone.
\<close>

theorem theme_extra_tokens_ignored:
  assumes "v \<in> set [''monokai'', ''cyberpunk'', ''github-dark'']"
  shows "run (handleCommand a r (''theme '' @ v @ '' '' @ extra)) a =
     a\<lparr>state := (state a)\<lparr>
          terminals := append_log (activeTerminalId (state a))
            [''soluf-th@dev:~$ '' @ ''theme '' @ v @ '' '' @ extra,
             ''Terminal theme switched to '' @ v]
            (terminals (state a)),
          terminalTheme := v\<rparr>,
       commandInput := [], suggestion := []\<rparr>"
proof -
  from theme_extra_clean [OF assms] obtain rest where
    c: "toLowerCase (trim (''theme '' @ v @ '' '' @ extra)) = ''theme '' @ rest"
    and n: "takeWhile (\<lambda>c. c \<noteq> CHR '' '') rest = v"
    by blast
  have "handleCommand a r (''theme '' @ v @ '' '' @ extra) =
        [[addLog a (''soluf-th@dev:~$ '' @ ''theme '' @ v @ '' '' @ extra) None,
          setState (\<lambda>s. s\<lparr>terminalTheme := v\<rparr>),
          addLog a (''Terminal theme switched to '' @ v) None,
          setCommandInput [], setSuggestion []]]"
    unfolding handleCommand_theme [OF c] Let_def n using assms by simp
  then show ?thesis by (simp add: addLog_state setters)
qed

theorem theme_extra_tokens_ignored_witness:
  "''monokai'' \<in> set [''monokai'', ''cyberpunk'', ''github-dark''] \<and>
   terminalTheme (state
     (run (handleCommand (initial 0) Rejected ''theme monokai junk'') (initial 0))) =
     ''monokai'' \<and>
   map (\<lambda>t. drop 2 (logs t))
     (terminals (state
       (run (handleCommand (initial 0) Rejected ''theme monokai junk'') (initial 0)))) =
     [[''soluf-th@dev:~$ theme monokai junk'', ''Terminal theme switched to monokai''], []]"
proof -
  have m: "''monokai'' \<in> set [''monokai'', ''cyberpunk'', ''github-dark'']" by simp
  have i: "state (initial 0) = initial_state 0" by (simp add: initial_def)
  show ?thesis
    using theme_extra_tokens_ignored [OF m, of "initial 0" Rejected "''junk''"]
    by (simp add: i initial_state_def append_log_def INITIAL_TERMINALS_def)
qed

text \<open>
  A tab after the name does not end it: \<open>theme monokai\<close>, a tab and \<open>junk\<close>
  leave the stored theme of the first render and log the whole text as an
  unknown theme.
\<close>

lemma lower_theme_tab:
  "toLowerCase (trim (''theme monokai'' @ [CHR 0x09] @ ''junk'')) =
   ''theme '' @ (''monokai'' @ [CHR 0x09] @ ''junk'')"
  by code_simp

theorem theme_tab_counterexample:
  "isWhiteSpace (CHR 0x09) \<and>
   terminalTheme (state (initial 0)) = ''github-dark'' \<and>
   terminalTheme (state
     (run (handleCommand (initial 0) Rejected (''theme monokai'' @ [CHR 0x09] @ ''junk''))
        (initial 0))) = ''github-dark'' \<and>
   map (\<lambda>t. drop 2 (logs t)) (terminals (state
     (run (handleCommand (initial 0) Rejected (''theme monokai'' @ [CHR 0x09] @ ''junk''))
        (initial 0)))) =
     [[''soluf-th@dev:~$ theme monokai'' @ [CHR 0x09] @ ''junk'',
       ''Unknown theme: monokai'' @ [CHR 0x09] @ ''junk''], []]"
proof -
  have w: "isWhiteSpace (CHR 0x09)" by (simp add: isWhiteSpace_def)
  have "terminalTheme (state
          (run (handleCommand a Rejected (''theme monokai'' @ [CHR 0x09] @ ''junk'')) a)) =
        terminalTheme (state a) \<and>
        terminals (state
          (run (handleCommand a Rejected (''theme monokai'' @ [CHR 0x09] @ ''junk'')) a)) =
        append_log (activeTerminalId (state a))
          [''soluf-th@dev:~$ theme monokai'' @ [CHR 0x09] @ ''junk'',
           ''Unknown theme: monokai'' @ [CHR 0x09] @ ''junk''] (terminals (state a))"
    for a
    unfolding handleCommand_theme [OF lower_theme_tab]
    by (simp add: Let_def addLog_state setters)
  with w show ?thesis
    by (simp add: initial_def initial_state_def append_log_def INITIAL_TERMINALS_def)
qed

section \<open>The workflow run simulator\<close>

lemma runWorkflow_rejected:
  assumes "i \<notin> set (map wf_id (workflows (state a))) \<or>
           (\<exists>w. find (\<lambda>w. wf_id w = i) (workflows (state a)) = Some w \<and> status w = Running)"
  shows "runWorkflow a i = []"
proof -
  have "find (\<lambda>w. wf_id w = i) (workflows (state a)) = None"
    if "i \<notin> set (map wf_id (workflows (state a)))"
    using that by (auto simp: find_None_iff)
  with assms show ?thesis by (auto simp: runWorkflow_def)
qed

lemma runWorkflow_phases:
  assumes "find (\<lambda>w. wf_id w = i) (workflows (state a)) = Some w" "status w \<noteq> Running"
  shows "runWorkflow a i =
    [[setState (\<lambda>s. s\<lparr>isTerminalOpen := True,
        workflows := map (\<lambda>w. if wf_id w = i then w\<lparr>status := Running, wf_logs := []\<rparr> else w)
                       (workflows s)\<rparr>),
      addLog a (''['' @ workflowName w @ ''] Starting runner...'') None],
     [addLog a (''['' @ workflowName w @ ''] Checking out code...'') None],
     [addLog a (''['' @ workflowName w @ ''] Deployment success!'') None],
     [addLog a (''['' @ workflowName w @ ''] Job finished.'') None],
     [setState (\<lambda>s. s\<lparr>workflows :=
        map (\<lambda>w. if wf_id w = i then w\<lparr>status := Success\<rparr> else w) (workflows s)\<rparr>)]]"
  using assms by (simp add: runWorkflow_def await_def)

lemma initial_wf2: "find (\<lambda>w. wf_id w = ''wf2'') (workflows (state (initial now))) =
   Some \<lparr>wf_id = ''wf2'', workflowName = ''CD Deployment'', status = Idle,
      startTime = None, wf_logs = []\<rparr>"
  by (simp add: initial_workflows INITIAL_WORKFLOWS_def)

lemma wf2_idle_not_running:
  "status \<lparr>wf_id = ''wf2'', workflowName = ''CD Deployment'', status = Idle,
           startTime = None, wf_logs = []\<rparr> \<noteq> Running"
  by simp

lemma wf2_started:
  "find (\<lambda>w. wf_id w = ''wf2'')
     (workflows (state (apply_updates (runWorkflow (initial 0) ''wf2'' ! 0) (initial 0)))) =
   Some \<lparr>wf_id = ''wf2'', workflowName = ''CD Deployment'', status = Running,
      startTime = None, wf_logs = []\<rparr>"
  unfolding runWorkflow_phases [OF initial_wf2, simplified]
  by (simp add: addLog_state setters initial_workflows INITIAL_WORKFLOWS_def)

text \<open>
  C7. A trigger for an identifier that no workflow has, or for a workflow whose
  status is \<open>running\<close>, issues no update at all: the handler returns before its
  first \<open>setState\<close>, so no event is raised in the transition system and the
  component, with the log and the status of every workflow, stays as it is.
\<close>

theorem trigger_rejected:
  assumes "i \<notin> set (map wf_id (workflows (state a))) \<or>
           (\<exists>w. find (\<lambda>w. wf_id w = i) (workflows (state a)) = Some w \<and> status w = Running)"
  shows "runWorkflow a i = [] \<and> on_event a (RunClick i) = [] \<and> trace (runWorkflow a i) a = [] \<and>
         run (runWorkflow a i) a = a"
  by (simp add: runWorkflow_rejected [OF assms] on_event_def)

theorem trigger_rejected_witness:
  "(\<exists>w. find (\<lambda>w. wf_id w = ''wf2'')
          (workflows (state (apply_updates (runWorkflow (initial 0) ''wf2'' ! 0) (initial 0)))) =
        Some w \<and> status w = Running) \<and>
   run (runWorkflow (apply_updates (runWorkflow (initial 0) ''wf2'' ! 0) (initial 0)) ''wf2'')
     (apply_updates (runWorkflow (initial 0) ''wf2'' ! 0) (initial 0)) =
     apply_updates (runWorkflow (initial 0) ''wf2'' ! 0) (initial 0) \<and>
   ''wf3'' \<notin> set (map wf_id (workflows (state (initial 0)))) \<and>
   run (runWorkflow (initial 0) ''wf3'') (initial 0) = initial 0"
proof -
  let ?a = "apply_updates (runWorkflow (initial 0) ''wf2'' ! 0) (initial 0)"
  have r: "\<exists>w. find (\<lambda>w. wf_id w = ''wf2'') (workflows (state ?a)) = Some w \<and> status w = Running"
    by (simp add: wf2_started)
  have u: "''wf3'' \<notin> set (map wf_id (workflows (state (initial 0))))"
    by (simp add: initial_workflows INITIAL_WORKFLOWS_def)
  from trigger_rejected [of "''wf2''" ?a, OF disjI2, OF r]
    trigger_rejected [of "''wf3''" "initial 0", OF disjI1, OF u] r u
  show ?thesis by blast
qed

text \<open>
  C1, as the program has it. \<open>addLog\<close> reads \<open>state.activeTerminalId\<close> of the
  render in which the workflow was triggered. Each of the four step lines is
  appended to the terminals that have the identifier that was active at the
  trigger, whatever terminal is active in the component \<open>cur\<close> to which the
  step is applied; a step changes nothing but the terminals, so no line goes
  to the log of the workflow, which the first phase empties.
\<close>

theorem workflow_steps_target:
  assumes "find (\<lambda>w. wf_id w = i) (workflows (state a)) = Some w" "status w \<noteq> Running"
  shows "length (runWorkflow a i) = 5 \<and>
    state (apply_updates (runWorkflow a i ! 0) cur) =
      (state cur)\<lparr>isTerminalOpen := True,
        workflows := map (\<lambda>w. if wf_id w = i then w\<lparr>status := Running, wf_logs := []\<rparr> else w)
                       (workflows (state cur)),
        terminals := append_log (activeTerminalId (state a))
                       [''['' @ workflowName w @ ''] Starting runner...''] (terminals (state cur))\<rparr> \<and>
    apply_updates (runWorkflow a i ! 1) cur =
      cur\<lparr>state := (state cur)\<lparr>terminals := append_log (activeTerminalId (state a))
                       [''['' @ workflowName w @ ''] Checking out code...''] (terminals (state cur))\<rparr>\<rparr> \<and>
    apply_updates (runWorkflow a i ! 2) cur =
      cur\<lparr>state := (state cur)\<lparr>terminals := append_log (activeTerminalId (state a))
                       [''['' @ workflowName w @ ''] Deployment success!''] (terminals (state cur))\<rparr>\<rparr> \<and>
    apply_updates (runWorkflow a i ! 3) cur =
      cur\<lparr>state := (state cur)\<lparr>terminals := append_log (activeTerminalId (state a))
                       [''['' @ workflowName w @ ''] Job finished.''] (terminals (state cur))\<rparr>\<rparr> \<and>
    apply_updates (runWorkflow a i ! 4) cur =
      cur\<lparr>state := (state cur)\<lparr>workflows :=
             map (\<lambda>w. if wf_id w = i then w\<lparr>status := Success\<rparr> else w) (workflows (state cur))\<rparr>\<rparr>"
  unfolding runWorkflow_phases [OF assms]
  by (simp add: addLog_state setters)

theorem workflow_steps_target_witness:
  "find (\<lambda>w. wf_id w = ''wf2'') (workflows (state (initial 0))) =
     Some \<lparr>wf_id = ''wf2'', workflowName = ''CD Deployment'', status = Idle,
           startTime = None, wf_logs = []\<rparr> \<and>
   activeTerminalId (state (initial 0)) = ''term-1'' \<and>
   activeTerminalId (state (selectTerminal ''term-2'' (initial 0))) = ''term-2'' \<and>
   map (\<lambda>t. (term_id t, drop 2 (logs t))) (terminals (state
     (apply_updates (runWorkflow (initial 0) ''wf2'' ! 1) (selectTerminal ''term-2'' (initial 0))))) =
   [(''term-1'', [''[CD Deployment] Checking out code...'']), (''term-2'', [])]"
proof -
  note t = workflow_steps_target [OF initial_wf2 wf2_idle_not_running,
      of 0 "selectTerminal ''term-2'' (initial 0)"]
  note t1 = t [THEN conjunct2, THEN conjunct2, THEN conjunct1]
  have "map (\<lambda>t. (term_id t, drop 2 (logs t))) (terminals (state
     (apply_updates (runWorkflow (initial 0) ''wf2'' ! 1) (selectTerminal ''term-2'' (initial 0))))) =
   [(''term-1'', [''[CD Deployment] Checking out code...'']), (''term-2'', [])]"
    unfolding t1
    by (simp add: selectTerminal_def setState_def initial_def initial_state_def
          append_log_def INITIAL_TERMINALS_def)
  moreover have "activeTerminalId (state (selectTerminal ''term-2'' (initial 0))) = ''term-2''"
    by (simp add: selectTerminal_def setState_def)
  ultimately show ?thesis using initial_wf2 initial_active by blast
qed

text \<open>
  A run of the transition system: \<open>wf2\<close> is triggered in the first render with
  \<open>term-1\<close> active, the tab of \<open>term-2\<close> is clicked, and the second step fires.
  Its line goes to \<open>term-1\<close> while \<open>term-2\<close> is the active terminal.
\<close>

lemma wf2_offered: "offered (initial 0) (RunClick ''wf2'')"
  by (simp add: offered_def initial_workflows INITIAL_WORKFLOWS_def)

lemma switch_reachable:
  "reachable
     (apply_updates (runWorkflow (initial 0) ''wf2'' ! 1)
        (selectTerminal ''term-2''
          (apply_updates (runWorkflow (initial 0) ''wf2'' ! 0) (initial 0))),
      [drop 2 (runWorkflow (initial 0) ''wf2''), []])"
proof -
  let ?ps = "runWorkflow (initial 0) ''wf2''"
  let ?a1 = "apply_updates (?ps ! 0) (initial 0)"
  let ?a2 = "selectTerminal ''term-2'' ?a1"
  have ps: "?ps = (?ps ! 0) # (?ps ! 1) # drop 2 ?ps"
    unfolding runWorkflow_phases [OF initial_wf2 wf2_idle_not_running] by simp
  have e1: "on_event (initial 0) (RunClick ''wf2'') = (?ps ! 0) # ((?ps ! 1) # drop 2 ?ps)"
    using ps by (simp add: on_event_def)
  have s1: "step (initial 0, []) (?a1, [] @ [(?ps ! 1) # drop 2 ?ps])"
    by (rule step.event [OF wf2_offered e1])
  have o2: "offered ?a1 (TabClick ''term-2'')"
    unfolding runWorkflow_phases [OF initial_wf2 wf2_idle_not_running]
    by (simp add: offered_def addLog_state setters initial_terminals INITIAL_TERMINALS_def append_log_def)
  have e2: "on_event ?a1 (TabClick ''term-2'') = [selectTerminal ''term-2''] # []"
    by (simp add: on_event_def)
  have s2: "step (?a1, [(?ps ! 1) # drop 2 ?ps])
              (apply_updates [selectTerminal ''term-2''] ?a1, [(?ps ! 1) # drop 2 ?ps] @ [[]])"
    by (rule step.event [OF o2 e2])
  have s3: "step (?a2, [(?ps ! 1) # drop 2 ?ps, []])
              (apply_updates (?ps ! 1) ?a2, [(?ps ! 1) # drop 2 ?ps, []][0 := drop 2 ?ps])"
    by (rule step.resume) simp_all
  have "reachable (initial 0, [])" by (rule reach_initial)
  from reach_step [OF this s1] have "reachable (?a1, [(?ps ! 1) # drop 2 ?ps])" by simp
  from reach_step [OF this s2] have "reachable (?a2, [(?ps ! 1) # drop 2 ?ps, []])" by simp
  from reach_step [OF this s3] show ?thesis by simp
qed

theorem workflow_steps_counterexample:
  "reachable
     (apply_updates (runWorkflow (initial 0) ''wf2'' ! 1)
        (selectTerminal ''term-2''
          (apply_updates (runWorkflow (initial 0) ''wf2'' ! 0) (initial 0))),
      [drop 2 (runWorkflow (initial 0) ''wf2''), []]) \<and>
   activeTerminalId (state
     (apply_updates (runWorkflow (initial 0) ''wf2'' ! 1)
       (selectTerminal ''term-2''
         (apply_updates (runWorkflow (initial 0) ''wf2'' ! 0) (initial 0))))) = ''term-2'' \<and>
   map (\<lambda>t. (term_id t, drop 2 (logs t))) (terminals (state
     (apply_updates (runWorkflow (initial 0) ''wf2'' ! 1)
       (selectTerminal ''term-2''
         (apply_updates (runWorkflow (initial 0) ''wf2'' ! 0) (initial 0)))))) =
   [(''term-1'', [''[CD Deployment] Starting runner...'',
                  ''[CD Deployment] Checking out code...'']),
    (''term-2'', [])]"
proof -
  have "activeTerminalId (state
     (apply_updates (runWorkflow (initial 0) ''wf2'' ! 1)
       (selectTerminal ''term-2''
         (apply_updates (runWorkflow (initial 0) ''wf2'' ! 0) (initial 0))))) = ''term-2'' \<and>
   map (\<lambda>t. (term_id t, drop 2 (logs t))) (terminals (state
     (apply_updates (runWorkflow (initial 0) ''wf2'' ! 1)
       (selectTerminal ''term-2''
         (apply_updates (runWorkflow (initial 0) ''wf2'' ! 0) (initial 0)))))) =
   [(''term-1'', [''[CD Deployment] Starting runner...'',
                  ''[CD Deployment] Checking out code...'']),
    (''term-2'', [])]"
    unfolding runWorkflow_phases [OF initial_wf2 wf2_idle_not_running]
    by (simp add: addLog_state setters selectTerminal_def initial_def initial_state_def
          append_log_def INITIAL_TERMINALS_def)
  with switch_reachable show ?thesis by blast
qed

subsection \<open>No workflow ever fails\<close>

lemma keeps_setState:
  assumes "\<And>s. status ` set (workflows (f s)) \<subseteq> status ` set (workflows s) \<union> {Idle, Running, Success}"
  shows "keeps_no_failed (setState f)"
  unfolding keeps_no_failed_def no_failed_def setState_def
proof (intro allI impI ballI)
  fix a w
  assume a: "\<forall>w\<in>set (workflows (state a)). status w \<noteq> Failed"
    and w: "w \<in> set (workflows (state (a\<lparr>state := f (state a)\<rparr>)))"
  then have "status w \<in> status ` set (workflows (f (state a)))" by simp
  with assms have "status w \<in> status ` set (workflows (state a)) \<union> {Idle, Running, Success}"
    by blast
  with a show "status w \<noteq> Failed" by auto
qed

lemma keeps_addLog [simp]: "keeps_no_failed (addLog a msg t)"
  unfolding addLog_def Let_def by (rule keeps_setState) auto

lemma keeps_cells [simp]:
  "keeps_no_failed (setAiResponse v)" "keeps_no_failed (setIsAiLoading b)"
  "keeps_no_failed (setChatInput x)" "keeps_no_failed (setChatMessages g)"
  "keeps_no_failed (setCommandInput x)" "keeps_no_failed (setSuggestion x)"
  "keeps_no_failed (setNewTaskText x)"
  by (simp_all add: keeps_no_failed_def no_failed_def setters)

lemma all_keep_simps [simp]:
  "all_keep []"
  "all_keep (p # ps) \<longleftrightarrow> (\<forall>u\<in>set p. keeps_no_failed u) \<and> all_keep ps"
  by (simp_all add: all_keep_def)

lemma all_keep_sync [simp]:
  "all_keep (sync us k) \<longleftrightarrow> (\<forall>u\<in>set us. keeps_no_failed u) \<and> all_keep k"
  by (cases k) auto

lemma all_keep_await [simp]: "all_keep (await k) \<longleftrightarrow> all_keep k"
  by (simp add: await_def)

lemma all_keep_unawaited [simp]:
  "all_keep (unawaited f rest) \<longleftrightarrow> all_keep f \<and> (\<forall>u\<in>set rest. keeps_no_failed u)"
  by (cases f) (auto simp: unawaited_def)

lemma all_keep_for_steps [simp]: "all_keep (for_steps a steps k) \<longleftrightarrow> all_keep k"
  by (induction steps) simp_all

lemma all_keep_runWorkflow [simp]: "all_keep (runWorkflow a i)"
  unfolding runWorkflow_def
  by (auto split: option.splits intro!: keeps_setState)

lemma all_keep_handleAnalyze [simp]: "all_keep (handleAnalyze a r)"
  unfolding handleAnalyze_def
  by (auto split: option.splits outcome.splits)

lemma all_keep_handleChat [simp]: "all_keep (handleChat a r)"
  unfolding handleChat_def Let_def
  by (auto split: outcome.splits)

lemma all_keep_if: "all_keep x \<Longrightarrow> all_keep y \<Longrightarrow> all_keep (if c then x else y)"
  by simp

lemma keeps_theme: "keeps_no_failed (setState (\<lambda>s. s\<lparr>terminalTheme := v\<rparr>))"
  by (rule keeps_setState) auto

lemma keeps_clear:
  "keeps_no_failed (setState (\<lambda>s. s\<lparr>terminals :=
     map (\<lambda>t. if term_id t = activeTerminalId s then t\<lparr>logs := []\<rparr> else t) (terminals s)\<rparr>))"
  by (rule keeps_setState) auto

lemma all_keep_handleCommand [simp]: "all_keep (handleCommand a r cmd)"
  unfolding handleCommand_def Let_def
  by (intro all_keep_if) (simp_all add: keeps_theme keeps_clear split: option.split)

lemma all_keep_on_event: "all_keep (on_event a e)"
  unfolding on_event_def
  by (cases e)
    (auto simp: handleCommandKeyDown_def onCommandChange_def addTask_def toggleTask_def
       deleteTask_def createNewTerminal_def selectTerminal_def selectTheme_def hideTerminal_def
       selectFile_def selectSidebarTab_def toggleAISidebar_def closeAISidebar_def selectIDE_def
       Let_def
       split: key.splits intro!: keeps_setState)

lemma apply_updates_no_failed:
  "\<forall>u\<in>set p. keeps_no_failed u \<Longrightarrow> no_failed a \<Longrightarrow> no_failed (apply_updates p a)"
  by (induction p arbitrary: a) (auto simp: keeps_no_failed_def)

lemma closeTerminal_workflows:
  "closeTerminal a i cur = Inr a' \<Longrightarrow> workflows (state a') = workflows (state cur)"
  by (auto simp: closeTerminal_def Let_def split: if_splits list.splits)

lemma step_no_failed:
  assumes "step c c'" "no_failed (fst c)" "\<forall>t\<in>set (snd c). all_keep t"
  shows "no_failed (fst c') \<and> (\<forall>t\<in>set (snd c'). all_keep t)"
  using assms
proof (induction rule: step.induct)
  case (event a e p ps susp)
  from all_keep_on_event [of a e] event(2) have "(\<forall>u\<in>set p. keeps_no_failed u) \<and> all_keep ps"
    by simp
  with event show ?case by (simp add: apply_updates_no_failed)
next
  case (close old i a a' susp)
  then show ?case by (simp add: no_failed_def closeTerminal_workflows)
next
  case (resume k susp p ps a)
  then have "all_keep (p # ps)" by (metis nth_mem snd_conv)
  then have k: "(\<forall>u\<in>set p. keeps_no_failed u) \<and> all_keep ps" by simp
  have "set (susp[k := ps]) \<subseteq> insert ps (set susp)" by (rule set_update_subset_insert)
  with resume k show ?case by (auto simp: apply_updates_no_failed)
qed

lemma reachable_no_failed:
  "reachable c \<Longrightarrow> no_failed (fst c) \<and> (\<forall>t\<in>set (snd c). all_keep t)"
proof (induction rule: reachable.induct)
  case (reach_initial now)
  show ?case by (simp add: no_failed_def initial_workflows INITIAL_WORKFLOWS_def)
next
  case (reach_step c c')
  then show ?case using step_no_failed by blast
qed

lemma find_map_keeps_id:
  assumes "\<And>w. wf_id (g w) = wf_id w"
  shows "find (\<lambda>w. wf_id w = i) (map g ws) = map_option g (find (\<lambda>w. wf_id w = i) ws)"
  by (induction ws) (simp_all add: assms)

lemma workflow_status_start:
  assumes "find (\<lambda>w. wf_id w = i) ws = Some w"
  shows "map_option status (find (\<lambda>w. wf_id w = i)
           (map (\<lambda>w. if wf_id w = i then w\<lparr>status := Running, wf_logs := []\<rparr> else w) ws)) =
         Some Running"
proof -
  have "wf_id w = i" using assms by (auto simp: find_Some_iff)
  then show ?thesis by (subst find_map_keeps_id) (simp_all add: assms)
qed

lemma workflow_status_finish:
  assumes "find (\<lambda>w. wf_id w = i) ws = Some w"
  shows "map_option status (find (\<lambda>w. wf_id w = i)
           (map ((\<lambda>w. if wf_id w = i then w\<lparr>status := Success\<rparr> else w) \<circ>
                 (\<lambda>w. if wf_id w = i then w\<lparr>status := Running, wf_logs := []\<rparr> else w)) ws)) =
         Some Success"
proof -
  have "wf_id w = i" using assms by (auto simp: find_Some_iff)
  then show ?thesis by (subst find_map_keeps_id) (simp_all add: assms)
qed

text \<open>
  C8. A trigger of a workflow that is \<open>idle\<close> (\<open>wf2\<close> in the first render), run to
  its end with nothing else in between: the status shown is \<open>running\<close> after
  the first phase and after each of the three that follow, and \<open>success\<close>
  after the last; the four step lines are appended one per phase before the
  last, which appends none. In every configuration the transition system
  reaches, no workflow has the status \<open>failed\<close>.
\<close>

theorem workflow_run_statuses:
  assumes "find (\<lambda>w. wf_id w = i) (workflows (state a)) = Some w" and "status w = Idle"
  shows "map (workflow_status i) (a # trace (runWorkflow a i) a) =
           [Some Idle, Some Running, Some Running, Some Running, Some Running, Some Success] \<and>
         map (\<lambda>x. terminals (state x)) (trace (runWorkflow a i) a) =
           [append_log (activeTerminalId (state a))
              [''['' @ workflowName w @ ''] Starting runner...''] (terminals (state a)),
            append_log (activeTerminalId (state a))
              [''['' @ workflowName w @ ''] Starting runner...'',
               ''['' @ workflowName w @ ''] Checking out code...''] (terminals (state a)),
            append_log (activeTerminalId (state a))
              [''['' @ workflowName w @ ''] Starting runner...'',
               ''['' @ workflowName w @ ''] Checking out code...'',
               ''['' @ workflowName w @ ''] Deployment success!''] (terminals (state a)),
            append_log (activeTerminalId (state a))
              [''['' @ workflowName w @ ''] Starting runner...'',
               ''['' @ workflowName w @ ''] Checking out code...'',
               ''['' @ workflowName w @ ''] Deployment success!'',
               ''['' @ workflowName w @ ''] Job finished.''] (terminals (state a)),
            append_log (activeTerminalId (state a))
              [''['' @ workflowName w @ ''] Starting runner...'',
               ''['' @ workflowName w @ ''] Checking out code...'',
               ''['' @ workflowName w @ ''] Deployment success!'',
               ''['' @ workflowName w @ ''] Job finished.''] (terminals (state a))] \<and>
         (\<forall>c susp. reachable (c, susp) \<longrightarrow> (\<forall>v\<in>set (workflows (state c)). status v \<noteq> Failed))"
proof -
  have r: "status w \<noteq> Running" using assms(2) by simp
  have 1: "map (workflow_status i) (a # trace (runWorkflow a i) a) =
           [Some Idle, Some Running, Some Running, Some Running, Some Running, Some Success]"
    unfolding runWorkflow_phases [OF assms(1) r] workflow_status_def
    by (simp add: addLog_state setters workflow_status_start [OF assms(1)]
          workflow_status_finish [OF assms(1)] assms)
  have 2: "map (\<lambda>x. terminals (state x)) (trace (runWorkflow a i) a) =
           [append_log (activeTerminalId (state a))
              [''['' @ workflowName w @ ''] Starting runner...''] (terminals (state a)),
            append_log (activeTerminalId (state a))
              [''['' @ workflowName w @ ''] Starting runner...'',
               ''['' @ workflowName w @ ''] Checking out code...''] (terminals (state a)),
            append_log (activeTerminalId (state a))
              [''['' @ workflowName w @ ''] Starting runner...'',
               ''['' @ workflowName w @ ''] Checking out code...'',
               ''['' @ workflowName w @ ''] Deployment success!''] (terminals (state a)),
            append_log (activeTerminalId (state a))
              [''['' @ workflowName w @ ''] Starting runner...'',
               ''['' @ workflowName w @ ''] Checking out code...'',
               ''['' @ workflowName w @ ''] Deployment success!'',
               ''['' @ workflowName w @ ''] Job finished.''] (terminals (state a)),
            append_log (activeTerminalId (state a))
              [''['' @ workflowName w @ ''] Starting runner...'',
               ''['' @ workflowName w @ ''] Checking out code...'',
               ''['' @ workflowName w @ ''] Deployment success!'',
               ''['' @ workflowName w @ ''] Job finished.''] (terminals (state a))]"
    unfolding runWorkflow_phases [OF assms(1) r]
    by (simp add: addLog_state setters)
  have 3: "\<forall>c susp. reachable (c, susp) \<longrightarrow> (\<forall>v\<in>set (workflows (state c)). status v \<noteq> Failed)"
    using reachable_no_failed by (fastforce simp: no_failed_def)
  from 1 2 3 show ?thesis by blast
qed

theorem workflow_run_statuses_witness:
  "find (\<lambda>w. wf_id w = ''wf2'') (workflows (state (initial 0))) =
     Some \<lparr>wf_id = ''wf2'', workflowName = ''CD Deployment'', status = Idle,
           startTime = None, wf_logs = []\<rparr> \<and>
   map (workflow_status ''wf2'') (initial 0 # trace (runWorkflow (initial 0) ''wf2'') (initial 0)) =
     [Some Idle, Some Running, Some Running, Some Running, Some Running, Some Success] \<and>
   map (\<lambda>x. map (\<lambda>t. drop 2 (logs t)) (terminals (state x)))
     (trace (runWorkflow (initial 0) ''wf2'') (initial 0)) =
     [[[''[CD Deployment] Starting runner...''], []],
      [[''[CD Deployment] Starting runner...'', ''[CD Deployment] Checking out code...''], []],
      [[''[CD Deployment] Starting runner...'', ''[CD Deployment] Checking out code...'',
        ''[CD Deployment] Deployment success!''], []],
      [[''[CD Deployment] Starting runner...'', ''[CD Deployment] Checking out code...'',
        ''[CD Deployment] Deployment success!'', ''[CD Deployment] Job finished.''], []],
      [[''[CD Deployment] Starting runner...'', ''[CD Deployment] Checking out code...'',
        ''[CD Deployment] Deployment success!'', ''[CD Deployment] Job finished.''], []]] \<and>
   reachable (initial 0, []) \<and>
   Failed \<notin> set (map status (workflows (state (initial 0))))"
proof -
  have i: "status \<lparr>wf_id = ''wf2'', workflowName = ''CD Deployment'', status = Idle,
           startTime = None, wf_logs = []\<rparr> = Idle" by simp
  note t = workflow_run_statuses [OF initial_wf2 i, of 0]
  note t1 = t [THEN conjunct1] and t2 = t [THEN conjunct2, THEN conjunct1]
    and t3 = t [THEN conjunct2, THEN conjunct2]
  have r: "reachable (initial 0, [])" by (rule reach_initial)
  from t3 r have "\<forall>v\<in>set (workflows (state (initial 0))). status v \<noteq> Failed" by blast
  then have f: "Failed \<notin> set (map status (workflows (state (initial 0))))" by auto
  have m: "map (\<lambda>x. map (\<lambda>t. drop 2 (logs t)) (terminals (state x))) xs =
           map (map (\<lambda>t. drop 2 (logs t))) (map (\<lambda>x. terminals (state x)) xs)" for xs
    by simp
  have l: "map (\<lambda>x. map (\<lambda>t. drop 2 (logs t)) (terminals (state x)))
     (trace (runWorkflow (initial 0) ''wf2'') (initial 0)) =
     [[[''[CD Deployment] Starting runner...''], []],
      [[''[CD Deployment] Starting runner...'', ''[CD Deployment] Checking out code...''], []],
      [[''[CD Deployment] Starting runner...'', ''[CD Deployment] Checking out code...'',
        ''[CD Deployment] Deployment success!''], []],
      [[''[CD Deployment] Starting runner...'', ''[CD Deployment] Checking out code...'',
        ''[CD Deployment] Deployment success!'', ''[CD Deployment] Job finished.''], []],
      [[''[CD Deployment] Starting runner...'', ''[CD Deployment] Checking out code...'',
        ''[CD Deployment] Deployment success!'', ''[CD Deployment] Job finished.''], []]]"
    unfolding m t2
    by (simp add: initial_terminals initial_active append_log_def INITIAL_TERMINALS_def)
  from initial_wf2 t1 l r f show ?thesis by blast
qed

section \<open>The terminal session manager\<close>

lemma closeTerminal_cases:
  "closeTerminal a i a =
     (if length (terminals (state a)) \<le> 1 then Inr a
      else if activeTerminalId (state a) = i then
        (case filter (\<lambda>t. term_id t \<noteq> i) (terminals (state a)) of
           [] \<Rightarrow> Inl TypeError
         | t # ts \<Rightarrow> Inr (a\<lparr>state := (state a)\<lparr>terminals := t # ts, activeTerminalId := term_id t\<rparr>\<rparr>))
      else Inr (a\<lparr>state := (state a)\<lparr>terminals :=
             filter (\<lambda>t. term_id t \<noteq> i) (terminals (state a))\<rparr>\<rparr>))"
  by (simp add: closeTerminal_def Let_def split: list.splits)

lemma createNewTerminal_state:
  "apply_updates (createNewTerminal now) a =
     a\<lparr>state := (state a)\<lparr>terminals := terminals (state a) @
            [\<lparr>term_id = ''term-'' @ number now, term_name = ''bash'', logs = [''Terminal created.'']\<rparr>],
          activeTerminalId := ''term-'' @ number now\<rparr>\<rparr>"
  by (simp add: createNewTerminal_def Let_def setState_def)

lemma closeTerminal_ok:
  assumes "terminals_ok a" "closeTerminal a i a = Inr a'"
  shows "terminals_ok a'"
proof (cases "length (terminals (state a)) \<le> 1")
  case True
  with assms show ?thesis by (simp add: closeTerminal_cases)
next
  case False
  show ?thesis
  proof (cases "activeTerminalId (state a) = i")
    case True
    with False assms(2) show ?thesis
      by (auto simp: closeTerminal_cases terminals_ok_def split: list.splits)
  next
    case ne: False
    from assms(1) obtain t where t: "t \<in> set (terminals (state a))"
      "term_id t = activeTerminalId (state a)"
      by (auto simp: terminals_ok_def)
    with ne have "t \<in> set (filter (\<lambda>t. term_id t \<noteq> i) (terminals (state a)))" by simp
    moreover from False ne assms(2) have
      "a' = a\<lparr>state := (state a)\<lparr>terminals :=
             filter (\<lambda>t. term_id t \<noteq> i) (terminals (state a))\<rparr>\<rparr>"
      by (simp add: closeTerminal_cases)
    ultimately have "t \<in> set (terminals (state a'))"
      "activeTerminalId (state a') = term_id t"
      using t by simp_all
    then have "terminals (state a') \<noteq> []"
      "activeTerminalId (state a') \<in> term_id ` set (terminals (state a'))"
      by (auto intro: imageI)
    then show ?thesis by (simp add: terminals_ok_def)
  qed
qed

lemma filter_other_nonempty:
  assumes "distinct (map f xs)" "1 < length xs"
  shows "filter (\<lambda>x. f x \<noteq> i) xs \<noteq> []"
proof
  assume "filter (\<lambda>x. f x \<noteq> i) xs = []"
  then have all: "\<forall>x\<in>set xs. f x = i" by (simp add: filter_empty_conv)
  from assms(2) obtain x y zs where xs: "xs = x # y # zs"
    by (cases xs; cases "tl xs") auto
  with all have "f x = i" "f y = i" by simp_all
  with assms(1) xs show False by simp
qed

lemma closeTerminal_total:
  assumes "distinct (map term_id (terminals (state a)))"
  shows "\<exists>a'. closeTerminal a i a = Inr a' \<and>
           set (map term_id (terminals (state a'))) \<subseteq> set (map term_id (terminals (state a))) \<and>
           distinct (map term_id (terminals (state a')))"
proof (cases "length (terminals (state a)) \<le> 1")
  case True
  with assms show ?thesis by (simp add: closeTerminal_cases)
next
  case False
  then have "filter (\<lambda>t. term_id t \<noteq> i) (terminals (state a)) \<noteq> []"
    using filter_other_nonempty [OF assms] by simp
  moreover have "distinct (map term_id (filter (\<lambda>t. term_id t \<noteq> i) (terminals (state a))))"
    using assms by (rule distinct_map_filter)
  moreover have "set (map term_id (filter (\<lambda>t. term_id t \<noteq> i) (terminals (state a)))) \<subseteq>
      set (map term_id (terminals (state a)))"
    by auto
  ultimately show ?thesis using False
    by (cases "filter (\<lambda>t. term_id t \<noteq> i) (terminals (state a))")
       (auto simp: closeTerminal_cases)
qed

lemma one_with_id:
  "distinct (map f xs) \<Longrightarrow> y \<in> set (map f xs) \<Longrightarrow> length (filter (\<lambda>x. f x = y) xs) = 1"
proof (induction xs)
  case Nil
  then show ?case by simp
next
  case (Cons x xs)
  show ?case
  proof (cases "f x = y")
    case True
    from Cons.prems have "f x \<notin> f ` set xs" by simp
    with True have "\<forall>z\<in>set xs. f z \<noteq> y" by blast
    then have "filter (\<lambda>x. f x = y) xs = []" by (simp add: filter_empty_conv)
    with True show ?thesis by simp
  next
    case False
    with Cons show ?thesis by auto
  qed
qed

text \<open>
  With distinct identifiers, and the active one among them, the handler of the
  current render keeps both, leaves a terminal, and leaves exactly one
  terminal with the active identifier.
\<close>

lemma close_distinct_ids:
  assumes "distinct (map term_id (terminals (state a)))"
    and "activeTerminalId (state a) \<in> set (map term_id (terminals (state a)))"
  shows "\<exists>a'. closeTerminal a i a = Inr a' \<and> terminals (state a') \<noteq> [] \<and>
           distinct (map term_id (terminals (state a'))) \<and>
           activeTerminalId (state a') \<in> set (map term_id (terminals (state a'))) \<and>
           length (filter (\<lambda>t. term_id t = activeTerminalId (state a'))
                     (terminals (state a'))) = 1"
proof -
  from closeTerminal_total [OF assms(1), of i] obtain a' where
    a': "closeTerminal a i a = Inr a'" "distinct (map term_id (terminals (state a')))"
    by blast
  have "terminals_ok a" using assms(2) by (auto simp: terminals_ok_def)
  from closeTerminal_ok [OF this a'(1)] have
    ok: "terminals (state a') \<noteq> []"
      "activeTerminalId (state a') \<in> set (map term_id (terminals (state a')))"
    by (simp_all add: terminals_ok_def)
  from one_with_id [OF a'(2) ok(2)] a' ok show ?thesis by blast
qed

lemma number_7: "number 7 = ''7''"
  by code_simp

text \<open>
  C2, where the program departs from it. The guard of \<open>closeTerminal\<close> counts
  terminals, and its filter removes every terminal of the identifier; the
  identifiers are \<open>term-\<close> followed by \<open>Date.now()\<close>, which two clicks on \<open>+\<close> can
  read at the same value. Two terminals are created at 7, and \<open>term-1\<close> and
  \<open>term-2\<close> are closed. Then a close of \<open>term-7\<close> from the current tabs throws
  the \<open>TypeError\<close> of \<open>newTerms[0].id\<close>; and the close buttons of the two tabs of
  \<open>term-7\<close> that older renders left in the document, the first drawn with the
  four terminals and the second with the two of \<open>term-7\<close>, end in a component
  without a terminal.
\<close>

theorem duplicate_ids_no_terminal:
  "terminal_ops [] (initial 0)
     [Create 7, Create 7, Close 2 ''term-1'', Close 3 ''term-2'', Close 4 ''term-7''] =
     Inl TypeError \<and>
   (case terminal_ops [] (initial 0)
           [Create 7, Create 7, Close 2 ''term-1'', Close 3 ''term-2'', Close 2 ''term-7'',
            Close 4 ''term-7''] of
      Inr rs \<Rightarrow>
        map (\<lambda>a. (map term_id (terminals (state a)), activeTerminalId (state a))) rs =
          [([''term-1'', ''term-2''], ''term-1''),
           ([''term-1'', ''term-2'', ''term-7''], ''term-7''),
           ([''term-1'', ''term-2'', ''term-7'', ''term-7''], ''term-7''),
           ([''term-2'', ''term-7'', ''term-7''], ''term-7''),
           ([''term-7'', ''term-7''], ''term-7''),
           ([''term-1'', ''term-2''], ''term-1''),
           ([], ''term-1'')]
    | Inl e \<Rightarrow> False)"
  by (simp add: closeTerminal_def Let_def createNewTerminal_state number_7 initial_def
        initial_state_def INITIAL_TERMINALS_def nth_append)

text \<open>
  C3, where the program departs from it. After two terminals are created at
  the same value of \<open>Date.now()\<close>, a close of \<open>term-1\<close> leaves two terminals with
  the active identifier: the tabs of both are drawn as active.
\<close>

theorem duplicate_ids_two_active:
  "(case terminal_ops [] (initial 0) [Create 7, Create 7, Close 2 ''term-1''] of
      Inr rs \<Rightarrow>
        map term_id (terminals (state (last rs))) = [''term-2'', ''term-7'', ''term-7''] \<and>
        activeTerminalId (state (last rs)) = ''term-7'' \<and>
        length (filter (\<lambda>t. term_id t = activeTerminalId (state (last rs)))
                  (terminals (state (last rs)))) = 2
    | Inl e \<Rightarrow> False)"
  by (simp add: closeTerminal_def Let_def createNewTerminal_state number_7 initial_def
        initial_state_def INITIAL_TERMINALS_def nth_append)

end
